theory Spec2Isabelle
  imports Main
begin

section \<open>Python values as the Decorator class observes them\<close>

text \<open>
  The class in \<^verbatim>\<open>decorator.py\<close> looks at a value in three ways only: its truth value
  (\<^verbatim>\<open>if function:\<close>), the attributes \<^verbatim>\<open>getattr\<close> finds on it and its
  \<^verbatim>\<open>__dict__\<close> (both inside \<^verbatim>\<open>functools.update_wrapper\<close>).
  A value is therefore one of
  \<^item> \<open>PNone\<close>, \<open>PInt\<close>, \<open>PStr\<close>, \<open>PDict\<close>: plain built-in data;
  \<^item> \<open>PSelf\<close>: a reference to the decorator instance under consideration, whose
    attributes live in the explicit state;
  \<^item> \<open>PObj ident attributes dict truth\<close>: any other object (a function, a method, a
    class, another decorator instance, an instance of a user class) with an identity,
    the attributes that \<^verbatim>\<open>getattr\<close> finds on it, the content of its
    \<^verbatim>\<open>__dict__\<close> (empty when it has none) and its truth value \<^verbatim>\<open>bool(obj)\<close>.
    These are independent observations: a function's \<^verbatim>\<open>__name__\<close> is served by
    its type and is not an entry of its \<^verbatim>\<open>__dict__\<close>; a function is true, a
    callable object whose class defines \<^verbatim>\<open>__bool__\<close> or \<^verbatim>\<open>__len__\<close> may
    be false.
  The decorator class defines neither \<^verbatim>\<open>__bool__\<close> nor \<^verbatim>\<open>__len__\<close>, so
  \<open>PSelf\<close> is true.
\<close>

datatype pyval =
    PNone
  | PInt int
  | PStr string
  | PDict "(string \<times> pyval) list"
  | PSelf
  | PObj nat "(string \<times> pyval) list" "(string \<times> pyval) list" bool

fun truthy :: "pyval \<Rightarrow> bool" where
  "truthy PNone = False"
| "truthy (PInt i) = (i \<noteq> 0)"
| "truthy (PStr s) = (s \<noteq> [])"
| "truthy (PDict d) = (d \<noteq> [])"
| "truthy PSelf = True"
| "truthy (PObj i a d t) = t"

datatype exn = NotImplementedError | IndexError | AttributeError | Raised string

text \<open>
  The state of a decorator instance is its attribute dictionary. A call returns a value
  or raises, and leaves the instance in a new state either way.
\<close>

type_synonym attrs = "string \<rightharpoonup> pyval"

type_synonym kwargs = "(string \<times> pyval) list"

type_synonym outcome = "(exn + pyval) \<times> attrs"

text \<open>
  What the surroundings of an instance contribute: the \<^verbatim>\<open>__decorator__\<close> method of
  its class (the hook a subclass overrides; it may read and write the instance), what
  calling a value does (given the instance state, which the callee may reach, and the
  arguments), the class-level attributes visible through the instance
  (\<^verbatim>\<open>__module__\<close>, \<^verbatim>\<open>__doc__\<close>), and the attributes the interpreter serves
  for plain built-in values (such as the \<^verbatim>\<open>__doc__\<close> of \<^verbatim>\<open>int\<close>).
  \<^verbatim>\<open>__wrap__\<close> and \<^verbatim>\<open>__init__\<close> are those of the base class.
\<close>

record env =
  class_decorator :: "attrs \<Rightarrow> pyval list \<Rightarrow> kwargs \<Rightarrow> outcome"
  call_value :: "pyval \<Rightarrow> attrs \<Rightarrow> pyval list \<Rightarrow> kwargs \<Rightarrow> outcome"
  class_attr :: "string \<rightharpoonup> pyval"
  builtin_attr :: "pyval \<Rightarrow> string \<rightharpoonup> pyval"

definition self_getattr :: "env \<Rightarrow> attrs \<Rightarrow> string \<Rightarrow> pyval option" where
  "self_getattr e st name = (case st name of Some v \<Rightarrow> Some v | None \<Rightarrow> class_attr e name)"

fun py_getattr :: "env \<Rightarrow> attrs \<Rightarrow> pyval \<Rightarrow> string \<Rightarrow> pyval option" where
  "py_getattr e st PSelf name = self_getattr e st name"
| "py_getattr e st (PObj i a d t) name = map_of a name"
| "py_getattr e st v name = builtin_attr e v name"

fun py_dict :: "attrs \<Rightarrow> pyval \<Rightarrow> attrs" where
  "py_dict st PSelf = st"
| "py_dict st (PObj i a d t) = map_of d"
| "py_dict st v = Map.empty"

section \<open>functools.update_wrapper\<close>

text \<open>
  The library function as Python 3 defines it, called with its default arguments:
  \<^verbatim>\<open>
  for attr in WRAPPER_ASSIGNMENTS:
      try: value = getattr(wrapped, attr)
      except AttributeError: pass
      else: setattr(wrapper, attr, value)
  wrapper.__dict__.update(getattr(wrapped, '__dict__', {}))
  wrapper.__wrapped__ = wrapped
  \<close>
  The wrapper is always the decorator instance, so it is the state.
\<close>

definition WRAPPER_ASSIGNMENTS :: "string list" where
  "WRAPPER_ASSIGNMENTS =
     [''__module__'', ''__name__'', ''__qualname__'', ''__doc__'', ''__annotations__'']"

definition assign_attr :: "env \<Rightarrow> pyval \<Rightarrow> string \<Rightarrow> attrs \<Rightarrow> attrs" where
  "assign_attr e wrapped attr st =
     (case py_getattr e st wrapped attr of None \<Rightarrow> st | Some v \<Rightarrow> st(attr \<mapsto> v))"

definition update_wrapper :: "env \<Rightarrow> attrs \<Rightarrow> pyval \<Rightarrow> attrs" where
  "update_wrapper e wrapper wrapped =
     (let w1 = fold (assign_attr e wrapped) WRAPPER_ASSIGNMENTS wrapper;
          w2 = w1 ++ py_dict w1 wrapped
      in w2(''__wrapped__'' \<mapsto> wrapped))"

section \<open>The Decorator class\<close>

text \<open>\<^verbatim>\<open>__wrap__\<close>: store the target, copy its metadata, return the instance.\<close>

definition dunder_wrap :: "env \<Rightarrow> attrs \<Rightarrow> pyval \<Rightarrow> pyval \<times> attrs" where
  "dunder_wrap e st func =
     (PSelf, update_wrapper e (st(''function'' \<mapsto> func)) func)"

text \<open>
  \<^verbatim>\<open>__init__\<close>, run on the attributes \<open>st\<close> the instance already has (what a
  subclass constructor stored before calling the base constructor; empty otherwise).
  An omitted argument is \<open>PNone\<close>.
\<close>

definition dunder_init :: "env \<Rightarrow> attrs \<Rightarrow> pyval \<Rightarrow> attrs" where
  "dunder_init e st func =
     (let st' = st(''function'' \<mapsto> func)
      in if truthy func then snd (dunder_wrap e st' func) else st')"

text \<open>\<^verbatim>\<open>__decorator__\<close> of the base class.\<close>

definition dunder_decorator :: "attrs \<Rightarrow> pyval list \<Rightarrow> kwargs \<Rightarrow> outcome" where
  "dunder_decorator st args kws = (Inl NotImplementedError, st)"

text \<open>
  \<^verbatim>\<open>self.__decorator__(*args, **kwargs)\<close>: the attribute is looked up on the
  instance. A method of the class is a non-data descriptor, so an entry
  \<^verbatim>\<open>__decorator__\<close> of the instance's own \<^verbatim>\<open>__dict__\<close> shadows it and is
  called as it is, without the instance; otherwise the method of the class runs, bound
  to the instance.
\<close>

definition decorator_impl :: "env \<Rightarrow> attrs \<Rightarrow> pyval list \<Rightarrow> kwargs \<Rightarrow> outcome" where
  "decorator_impl e st args kws =
     (case st ''__decorator__'' of
        Some v \<Rightarrow> call_value e v st args kws
      | None \<Rightarrow> class_decorator e st args kws)"

text \<open>
  \<^verbatim>\<open>__call__\<close>. Reading \<^verbatim>\<open>self.function\<close> raises AttributeError when neither
  the instance nor its class has the attribute; \<^verbatim>\<open>args[0]\<close> raises IndexError on
  an empty argument tuple.
\<close>

definition dunder_call :: "env \<Rightarrow> attrs \<Rightarrow> pyval list \<Rightarrow> kwargs \<Rightarrow> outcome" where
  "dunder_call e st args kws =
     (case self_getattr e st ''function'' of
        None \<Rightarrow> (Inl AttributeError, st)
      | Some f \<Rightarrow>
          if truthy f then decorator_impl e st args kws
          else (case args of
                  [] \<Rightarrow> (Inl IndexError, st)
                | a # rest \<Rightarrow> (let (r, st') = dunder_wrap e st a in (Inr r, st'))))"

text \<open>
  \<^verbatim>\<open>__get__\<close> returns the instance itself or \<^verbatim>\<open>partial(self, instance)\<close>;
  \<open>ReturnsPartial bound\<close> is the partial object whose function is the instance and whose
  stored positional arguments are \<open>bound\<close>. The owning class \<open>klass\<close> is not used, and
  the instance is not modified.
\<close>

datatype getresult = ReturnsSelf | ReturnsPartial "pyval list"

definition dunder_get :: "attrs \<Rightarrow> pyval \<Rightarrow> pyval \<Rightarrow> getresult \<times> attrs" where
  "dunder_get st inst klass = (if inst = PNone then ReturnsSelf else ReturnsPartial [inst], st)"

text \<open>
  Calling what \<^verbatim>\<open>__get__\<close> returned: the instance is called as it is, a partial
  object calls its function with the stored arguments in front of the new ones.
\<close>

fun invoke :: "env \<Rightarrow> attrs \<Rightarrow> getresult \<Rightarrow> pyval list \<Rightarrow> kwargs \<Rightarrow> outcome" where
  "invoke e st ReturnsSelf args kws = dunder_call e st args kws"
| "invoke e st (ReturnsPartial bound) args kws = dunder_call e st (bound @ args) kws"

text \<open>The two states: armed when \<^verbatim>\<open>if self.function\<close> succeeds, deferred otherwise.\<close>

definition armed :: "env \<Rightarrow> attrs \<Rightarrow> bool" where
  "armed e st = (case self_getattr e st ''function'' of None \<Rightarrow> False | Some f \<Rightarrow> truthy f)"

definition deferred :: "env \<Rightarrow> attrs \<Rightarrow> bool" where
  "deferred e st =
     (case self_getattr e st ''function'' of None \<Rightarrow> False | Some f \<Rightarrow> \<not> truthy f)"

section \<open>The lifetime of an instance\<close>






section \<open>Example classes and callables\<close>

text \<open>
  \<^verbatim>\<open>def add(a, b): return a + b\<close> at module level, without a docstring, and
  \<^verbatim>\<open>def answer(*args, **kwargs): return 42\<close>.
\<close>

definition add_fn :: pyval where
  "add_fn = PObj 1
     [(''__module__'', PStr ''__main__''), (''__name__'', PStr ''add''),
      (''__qualname__'', PStr ''add''), (''__doc__'', PNone),
      (''__annotations__'', PDict [])]
     [] True"

definition answer_fn :: pyval where
  "answer_fn = PObj 7
     [(''__module__'', PStr ''__main__''), (''__name__'', PStr ''answer''),
      (''__qualname__'', PStr ''answer''), (''__doc__'', PNone),
      (''__annotations__'', PDict [])]
     [] True"

text \<open>
  Calling the example functions. The parameters \<^verbatim>\<open>a\<close> and \<^verbatim>\<open>b\<close> of
  \<^verbatim>\<open>add\<close> are bound from the positional arguments first and from the keywords
  after; \<^verbatim>\<open>+\<close> adds integers and concatenates strings. Any other call raises
  TypeError.
\<close>

fun bind_ab :: "pyval list \<Rightarrow> kwargs \<Rightarrow> (pyval \<times> pyval) option" where
  "bind_ab [a, b] [] = Some (a, b)"
| "bind_ab [a] [(k, b)] = (if k = ''b'' then Some (a, b) else None)"
| "bind_ab [] [(k, x), (l, y)] =
     (if k = ''a'' \<and> l = ''b'' then Some (x, y)
      else if k = ''b'' \<and> l = ''a'' then Some (y, x) else None)"
| "bind_ab args kws = None"

fun py_plus :: "pyval \<Rightarrow> pyval \<Rightarrow> exn + pyval" where
  "py_plus (PInt a) (PInt b) = Inr (PInt (a + b))"
| "py_plus (PStr a) (PStr b) = Inr (PStr (a @ b))"
| "py_plus x y = Inl (Raised ''TypeError'')"

definition py_call :: "pyval \<Rightarrow> attrs \<Rightarrow> pyval list \<Rightarrow> kwargs \<Rightarrow> outcome" where
  "py_call v st args kws =
     (if v = add_fn then
        (case bind_ab args kws of
           Some (a, b) \<Rightarrow> (py_plus a b, st)
         | None \<Rightarrow> (Inl (Raised ''TypeError''), st))
      else if v = answer_fn then (Inr (PInt 42), st)
      else (Inl (Raised ''TypeError''), st))"

text \<open>
  The doubling decorator of the specification's example:
  \<^verbatim>\<open>
  class Doubled(Decorator):
      def __decorator__(self, *args, **kwargs):
          return 2 * self.function(*args, **kwargs)
  \<close>
\<close>

fun py_twice :: "pyval \<Rightarrow> exn + pyval" where
  "py_twice (PInt n) = Inr (PInt (2 * n))"
| "py_twice (PStr s) = Inr (PStr (s @ s))"
| "py_twice v = Inl (Raised ''TypeError'')"

definition doubled_hook :: "attrs \<Rightarrow> pyval list \<Rightarrow> kwargs \<Rightarrow> outcome" where
  "doubled_hook st args kws =
     (case st ''function'' of
        None \<Rightarrow> (Inl AttributeError, st)
      | Some f \<Rightarrow>
          (case py_call f st args kws of
             (Inl x, st') \<Rightarrow> (Inl x, st')
           | (Inr v, st') \<Rightarrow> (py_twice v, st')))"

definition Doubled :: env where
  "Doubled = \<lparr>class_decorator = doubled_hook, call_value = py_call,
              class_attr = [''__module__'' \<mapsto> PStr ''__main__'', ''__doc__'' \<mapsto> PNone],
              builtin_attr = (\<lambda>v. Map.empty)\<rparr>"

text \<open>The base class used directly (its docstring abridged to the first line).\<close>

definition Base :: env where
  "Base = \<lparr>class_decorator = dunder_decorator, call_value = py_call,
           class_attr = [''__module__'' \<mapsto> PStr ''decorator'',
                         ''__doc__'' \<mapsto> PStr ''Defines an interface for class based decorators.''],
           builtin_attr = (\<lambda>v. Map.empty)\<rparr>"



text \<open>
  A decorator instance that already wraps \<open>add_fn\<close>, seen from outside as the inner
  decorator of a stack
  \<^verbatim>\<open>
  @Outer
  @Inner
  def add(a, b): return a + b
  \<close>
  All its attributes are entries of its \<^verbatim>\<open>__dict__\<close>; lemma
  \<open>inner_dict_is_armed_instance\<close> shows that they are the ones the constructor stores.
\<close>

definition inner_dict :: "(string \<times> pyval) list" where
  "inner_dict =
     [(''function'', add_fn),
      (''__module__'', PStr ''__main__''), (''__name__'', PStr ''add''),
      (''__qualname__'', PStr ''add''), (''__doc__'', PNone),
      (''__annotations__'', PDict []),
      (''__wrapped__'', add_fn)]"

definition inner :: pyval where
  "inner = PObj 2 inner_dict inner_dict True"

text \<open>
  A function whose \<^verbatim>\<open>__dict__\<close> has an entry \<^verbatim>\<open>__name__\<close> of its own:
  \<^verbatim>\<open>
  def f(): "doc"
  f.__dict__['__name__'] = 'g'
  \<close>
  \<^verbatim>\<open>f.__name__\<close> is still \<^verbatim>\<open>'f'\<close>, the function type serves it.
\<close>

definition renamed_fn :: pyval where
  "renamed_fn = PObj 3
     [(''__module__'', PStr ''__main__''), (''__name__'', PStr ''f''),
      (''__qualname__'', PStr ''f''), (''__doc__'', PStr ''doc''),
      (''__annotations__'', PDict [])]
     [(''__name__'', PStr ''g'')] True"

text \<open>
  A documented function, and a function that carries an attribute named like the hook:
  \<^verbatim>\<open>
  def greet(): "Say hello."
  def tagged(): pass
  tagged.__decorator__ = answer
  \<close>
\<close>

definition greet_fn :: pyval where
  "greet_fn = PObj 6
     [(''__module__'', PStr ''__main__''), (''__name__'', PStr ''greet''),
      (''__qualname__'', PStr ''greet''), (''__doc__'', PStr ''Say hello.''),
      (''__annotations__'', PDict [])]
     [] True"


text \<open>
  A callable that is false in a boolean context, an empty instance of
  \<^verbatim>\<open>
  class Pipeline(list):
      "Steps applied in order."
      def __call__(self, x): ...
  \<close>
\<close>

definition empty_pipeline :: pyval where
  "empty_pipeline = PObj 9
     [(''__module__'', PStr ''__main__''), (''__doc__'', PStr ''Steps applied in order.'')]
     [] False"

text \<open>A class \<^verbatim>\<open>Math\<close> and an instance of it, on which a decorated method is looked up.\<close>

definition Math :: pyval where
  "Math = PObj 4 [(''__module__'', PStr ''__main__''), (''__name__'', PStr ''Math'')] [] True"

definition owner :: pyval where
  "owner = PObj 5 [(''__module__'', PStr ''__main__'')] [] True"

section \<open>What update_wrapper leaves on the instance\<close>

lemma fold_assign_obj:
  "fold (assign_attr e (PObj i a d t)) names st k =
     (if k \<in> set names \<and> map_of a k \<noteq> None then map_of a k else st k)"
  by (induction names arbitrary: st) (auto simp: assign_attr_def split: option.splits)

lemma update_wrapper_obj:
  "update_wrapper e st (PObj i a d t) k =
     (if k = ''__wrapped__'' then Some (PObj i a d t)
      else case map_of d k of
             Some v \<Rightarrow> Some v
           | None \<Rightarrow> if k \<in> set WRAPPER_ASSIGNMENTS \<and> map_of a k \<noteq> None then map_of a k
                     else st k)"
  by (auto simp: update_wrapper_def Let_def fold_assign_obj map_add_def split: option.splits)

lemma init_true_obj:
  "dunder_init e cfg (PObj i a d True) =
     update_wrapper e (cfg(''function'' \<mapsto> PObj i a d True)) (PObj i a d True)"
  by (simp add: dunder_init_def dunder_wrap_def)

lemma init_false_obj:
  "dunder_init e cfg (PObj i a d False) = cfg(''function'' \<mapsto> PObj i a d False)"
  by (simp add: dunder_init_def)

lemma init_obj_function:
  "dunder_init e cfg (PObj i a d True) ''function'' =
     (case map_of d ''function'' of Some v \<Rightarrow> Some v | None \<Rightarrow> Some (PObj i a d True))"
  by (simp add: init_true_obj update_wrapper_obj WRAPPER_ASSIGNMENTS_def split: option.splits)

lemma inner_dict_is_armed_instance: "dunder_init e Map.empty add_fn = map_of inner_dict"
  by (rule ext)
     (simp add: add_fn_def init_true_obj inner_dict_def update_wrapper_obj
        WRAPPER_ASSIGNMENTS_def)




section \<open>Invocation\<close>






text \<open>
  C9. A deferred instance invoked with a first positional argument, further positional
  arguments and keyword arguments behaves as if invoked with the first argument alone:
  it wraps \<^verbatim>\<open>args[0]\<close> and returns itself, and the resulting state does not depend
  on the other arguments.
\<close>

theorem deferred_call_ignores_extras:
  "deferred e st \<Longrightarrow>
   dunder_call e st (a # rest) kws = dunder_call e st [a] [] \<and>
   dunder_call e st (a # rest) kws = (Inr PSelf, snd (dunder_wrap e st a))"
  by (auto simp: deferred_def dunder_call_def dunder_wrap_def split: option.splits)

theorem deferred_call_ignores_extras_witness:
  "deferred Doubled (dunder_init Doubled Map.empty PNone) \<and>
   dunder_call Doubled (dunder_init Doubled Map.empty PNone)
       [add_fn, PInt 7, PStr ''x''] [(''verbose'', PInt 1)] =
     dunder_call Doubled (dunder_init Doubled Map.empty PNone) [add_fn] [] \<and>
   dunder_call Doubled (dunder_init Doubled Map.empty PNone)
       [add_fn, PInt 7, PStr ''x''] [(''verbose'', PInt 1)] =
     (Inr PSelf, snd (dunder_wrap Doubled (dunder_init Doubled Map.empty PNone) add_fn))"
proof -
  have d: "deferred Doubled (dunder_init Doubled Map.empty PNone)"
    by (simp add: deferred_def self_getattr_def dunder_init_def)
  from deferred_call_ignores_extras [OF d] d show ?thesis
    by simp
qed

text \<open>
  C10. A deferred instance invoked with no positional argument raises IndexError,
  whatever the keyword arguments, and its state (the wrapped target included) is
  unchanged, so it is still deferred.
\<close>

theorem deferred_call_no_args:
  "deferred e st \<Longrightarrow>
   dunder_call e st [] kws = (Inl IndexError, st) \<and>
   deferred e (snd (dunder_call e st [] kws))"
  by (auto simp: deferred_def dunder_call_def split: option.splits)

theorem deferred_call_no_args_witness:
  "deferred Doubled (dunder_init Doubled Map.empty PNone) \<and>
   dunder_call Doubled (dunder_init Doubled Map.empty PNone) [] [(''verbose'', PInt 1)] =
     (Inl IndexError, dunder_init Doubled Map.empty PNone) \<and>
   dunder_init Doubled Map.empty PNone ''function'' = Some PNone"
proof -
  have d: "deferred Doubled (dunder_init Doubled Map.empty PNone)"
    by (simp add: deferred_def self_getattr_def dunder_init_def)
  from deferred_call_no_args [OF d, of "[(''verbose'', PInt 1)]"] d show ?thesis
    by (simp add: dunder_init_def)
qed

section \<open>Direct and two-step decoration\<close>

text \<open>
  For a callable that is true in a boolean context the two forms agree, for every class
  and every configuration \<open>cfg\<close> a subclass constructor has stored on the instance:
  constructing the instance without a target and calling it with the callable returns
  the instance itself, in exactly the state that constructing it with the callable
  gives, and so every later invocation has the same outcome.
\<close>

lemma two_step_eq_direct:
  assumes "truthy f"
  shows "dunder_call e (dunder_init e cfg PNone) [f] [] = (Inr PSelf, dunder_init e cfg f)"
    and "dunder_call e (snd (dunder_call e (dunder_init e cfg PNone) [f] [])) args kws =
           dunder_call e (dunder_init e cfg f) args kws"
  using assms
  by (simp_all add: dunder_init_def dunder_call_def dunder_wrap_def self_getattr_def)


section \<open>Attribute access\<close>

text \<open>
  C4. Looking the instance up with no owning instance (\<open>PNone\<close>, access through the
  class) returns the instance itself; no lookup changes the instance. Looking it up on
  an owning object returns a partial object that binds the owner, and invoking that
  object with arguments is invoking the instance with the owner in front of them.
\<close>

theorem get_binds_instance:
  "fst (dunder_get st PNone klass) = ReturnsSelf \<and>
   snd (dunder_get st inst klass) = st \<and>
   (inst \<noteq> PNone \<longrightarrow>
      fst (dunder_get st inst klass) = ReturnsPartial [inst] \<and>
      invoke e st (fst (dunder_get st inst klass)) args kws =
        dunder_call e st (inst # args) kws)"
  by (simp add: dunder_get_def)

theorem get_binds_instance_witness:
  "fst (dunder_get (dunder_init Doubled Map.empty add_fn) PNone Math) = ReturnsSelf \<and>
   snd (dunder_get (dunder_init Doubled Map.empty add_fn) owner Math) =
     dunder_init Doubled Map.empty add_fn \<and>
   owner \<noteq> PNone \<and>
   fst (dunder_get (dunder_init Doubled Map.empty add_fn) owner Math) =
     ReturnsPartial [owner] \<and>
   invoke Doubled (dunder_init Doubled Map.empty add_fn)
       (fst (dunder_get (dunder_init Doubled Map.empty add_fn) owner Math))
       [PInt 2, PInt 3] [] =
     dunder_call Doubled (dunder_init Doubled Map.empty add_fn) [owner, PInt 2, PInt 3] []"
proof -
  have n: "owner \<noteq> PNone"
    by (simp add: owner_def)
  from get_binds_instance [of "dunder_init Doubled Map.empty add_fn" Math owner Doubled
      "[PInt 2, PInt 3]" "[]"] n
  show ?thesis
    by simp
qed

section \<open>The wrapping step\<close>

text \<open>
  C8, as the code has it. When the wrapping step is performed with a callable that has a
  name and a docstring, and the callable's own \<^verbatim>\<open>__dict__\<close> holds no different
  entry under \<^verbatim>\<open>__name__\<close> or \<^verbatim>\<open>__doc__\<close>, the instance's name and docstring
  are the callable's afterwards.
\<close>

theorem wrap_copies_metadata:
  assumes "py_getattr e st (PObj i a d t) ''__name__'' = Some n"
    and "py_getattr e st (PObj i a d t) ''__doc__'' = Some doc"
    and "map_of d ''__name__'' = None \<or> map_of d ''__name__'' = Some n"
    and "map_of d ''__doc__'' = None \<or> map_of d ''__doc__'' = Some doc"
  shows "self_getattr e (snd (dunder_wrap e st (PObj i a d t))) ''__name__'' = Some n \<and>
         self_getattr e (snd (dunder_wrap e st (PObj i a d t))) ''__doc__'' = Some doc"
  using assms
  by (auto simp: dunder_wrap_def self_getattr_def update_wrapper_obj WRAPPER_ASSIGNMENTS_def)

theorem wrap_copies_metadata_witness:
  "py_getattr Doubled Map.empty greet_fn ''__name__'' = Some (PStr ''greet'') \<and>
   py_getattr Doubled Map.empty greet_fn ''__doc__'' = Some (PStr ''Say hello.'') \<and>
   self_getattr Doubled (snd (dunder_wrap Doubled Map.empty greet_fn)) ''__name__'' =
     Some (PStr ''greet'') \<and>
   self_getattr Doubled (snd (dunder_wrap Doubled Map.empty greet_fn)) ''__doc__'' =
     Some (PStr ''Say hello.'')"
proof -
  have n: "py_getattr Doubled Map.empty greet_fn ''__name__'' = Some (PStr ''greet'')"
    by (simp add: greet_fn_def)
  have d: "py_getattr Doubled Map.empty greet_fn ''__doc__'' = Some (PStr ''Say hello.'')"
    by (simp add: greet_fn_def)
  have dn: "map_of [] ''__name__'' = None \<or>
            map_of ([] :: (string \<times> pyval) list) ''__name__'' = Some (PStr ''greet'')"
    by simp
  have dd: "map_of [] ''__doc__'' = None \<or>
            map_of ([] :: (string \<times> pyval) list) ''__doc__'' = Some (PStr ''Say hello.'')"
    by simp
  from wrap_copies_metadata [OF n [unfolded greet_fn_def] d [unfolded greet_fn_def] dn dd] n d
  show ?thesis
    by (simp add: greet_fn_def)
qed

text \<open>
  The statement without the proviso fails: \<open>renamed_fn\<close> is named \<^verbatim>\<open>f\<close>, and the
  instance that wraps it is named \<^verbatim>\<open>g\<close>, because the entries of the callable's
  \<^verbatim>\<open>__dict__\<close> are merged into the instance after the metadata has been assigned.
\<close>

theorem wrap_renamed_counterexample:
  "py_getattr Base Map.empty renamed_fn ''__name__'' = Some (PStr ''f'') \<and>
   self_getattr Base (snd (dunder_wrap Base Map.empty renamed_fn)) ''__name__'' =
     Some (PStr ''g'') \<and>
   self_getattr Base (snd (dunder_wrap Base Map.empty renamed_fn)) ''__name__'' \<noteq>
     py_getattr Base Map.empty renamed_fn ''__name__''"
  by (simp add: renamed_fn_def dunder_wrap_def self_getattr_def update_wrapper_obj
        WRAPPER_ASSIGNMENTS_def)

text \<open>
  Wrapping a callable that is true in a boolean context and whose \<^verbatim>\<open>__dict__\<close>
  has no entry \<^verbatim>\<open>function\<close>: the callable becomes the target and the instance is
  armed, from the constructor and from a deferred call alike.
\<close>

lemma init_plain_callable:
  assumes "map_of d ''function'' = None"
  shows "dunder_init e cfg (PObj i a d True) ''function'' = Some (PObj i a d True)"
    and "dunder_init e cfg (PObj i a d True) ''__wrapped__'' = Some (PObj i a d True)"
    and "armed e (dunder_init e cfg (PObj i a d True))"
  using assms
  by (simp_all add: init_obj_function armed_def self_getattr_def)
     (simp add: init_true_obj update_wrapper_obj)

lemma deferred_call_plain_callable:
  assumes "deferred e st" and "map_of d ''function'' = None"
  shows "fst (dunder_call e st (PObj i a d True # rest) kws) = Inr PSelf"
    and "snd (dunder_call e st (PObj i a d True # rest) kws) ''function'' =
           Some (PObj i a d True)"
    and "armed e (snd (dunder_call e st (PObj i a d True # rest) kws))"
  using assms
  by (auto simp: deferred_def dunder_call_def dunder_wrap_def armed_def self_getattr_def
        update_wrapper_obj WRAPPER_ASSIGNMENTS_def split: option.splits)

text \<open>
  C2 on a stack of decorators. A deferred instance is invoked with the callable \<open>inner\<close>,
  a decorator instance that wraps \<open>add_fn\<close>. The call returns the instance itself, but
  the wrapped target it has set is \<open>add_fn\<close>, not the callable it was given: merging
  the \<^verbatim>\<open>__dict__\<close> of \<open>inner\<close> overwrites the attribute \<^verbatim>\<open>function\<close> that
  \<^verbatim>\<open>__wrap__\<close> has just assigned.
\<close>

theorem deferred_call_stacked_target:
  "fst (dunder_call e (dunder_init e Map.empty PNone) [inner] []) = Inr PSelf \<and>
   snd (dunder_call e (dunder_init e Map.empty PNone) [inner] []) ''function'' = Some add_fn \<and>
   add_fn \<noteq> inner"
  by (simp add: dunder_call_def dunder_init_def self_getattr_def dunder_wrap_def inner_def
        update_wrapper_obj WRAPPER_ASSIGNMENTS_def inner_dict_def add_fn_def)

text \<open>
  C7 on a stack of decorators. The constructor is given the callable \<open>inner\<close>; it performs
  the wrapping step and the instance is armed, but the target it stores is \<open>add_fn\<close>,
  the function \<open>inner\<close> wraps, and not \<open>inner\<close>, which is kept under
  \<^verbatim>\<open>__wrapped__\<close> only.
\<close>

theorem init_stacked_target:
  "dunder_init e Map.empty inner ''function'' = Some add_fn \<and>
   dunder_init e Map.empty inner ''__wrapped__'' = Some inner \<and>
   armed e (dunder_init e Map.empty inner) \<and>
   add_fn \<noteq> inner"
proof -
  have f: "dunder_init e Map.empty inner ''function'' = Some add_fn"
    by (simp add: inner_def init_obj_function inner_dict_def)
  have w: "dunder_init e Map.empty inner ''__wrapped__'' = Some inner"
    by (simp add: inner_def init_true_obj update_wrapper_obj)
  from f have a: "armed e (dunder_init e Map.empty inner)"
    by (simp add: armed_def self_getattr_def add_fn_def)
  have "add_fn \<noteq> inner"
    by (simp add: add_fn_def inner_def)
  with f w a show ?thesis
    by simp
qed

text \<open>
  The constructor given a callable that is false in a boolean context stores it, skips
  the wrapping step and leaves the instance deferred.
\<close>

lemma init_false_callable_deferred:
  "dunder_init e Map.empty empty_pipeline = Map.empty(''function'' \<mapsto> empty_pipeline)"
  "deferred e (dunder_init e Map.empty empty_pipeline)"
  by (simp_all add: empty_pipeline_def init_false_obj deferred_def self_getattr_def)

section \<open>The wrapped target over the lifetime of an instance\<close>







end
